theory Spec2Isabelle
  imports Complex_Main "HOL-Library.Sublist"
begin

section \<open>Exceptions\<close>

text \<open>
  Python exceptions are values. Only subclasses of \<^verbatim>\<open>Exception\<close> are modelled (they are
  what every \<^verbatim>\<open>except Exception\<close> of the sources catches); each carries the text that
  \<^verbatim>\<open>str(e)\<close> gives. \<^verbatim>\<open>ConnectionError\<close> also carries its \<^verbatim>\<open>__cause__\<close>, set by
  \<^verbatim>\<open>raise ... from e\<close>. \<^verbatim>\<open>NotFound\<close> is \<^verbatim>\<open>plexapi.exceptions.NotFound\<close>.
\<close>

datatype exn =
    ConnectionError string "exn option"
  | NotFound string
  | AttributeError string
  | TypeError string
  | KeyError string
  | OtherException string

fun str_exn :: "exn \<Rightarrow> string" where
  "str_exn (ConnectionError m c) = m"
| "str_exn (NotFound m) = m"
| "str_exn (AttributeError m) = m"
| "str_exn (TypeError m) = m"
| "str_exn (KeyError k) = CHR 0x27 # k @ [CHR 0x27]"
| "str_exn (OtherException m) = m"


section \<open>const.py\<close>

datatype PermissionsType = READ | WRITE | DELETE

definition CONNECTION_TIMEOUT :: int where
  "CONNECTION_TIMEOUT = 5"

definition SESSION_TIMEOUT :: int where
  "SESSION_TIMEOUT = 60 * 30"


section \<open>plex\_client.py: the connection manager\<close>

subsection \<open>Python floats\<close>

text \<open>
  A Python float is an IEEE 754 binary64 number. A clock reading and a stored timestamp
  are such floats; each is modelled by the real number it denotes. The difference
  \<^verbatim>\<open>now - last\<close> of two floats is the exact difference rounded to the nearest float, a
  tie going to the float with an even significand.

  \<open>binade x\<close> is the exponent \<open>k\<close> of the power of two with
  \<open>2 powi k \<le> \<bar>x\<bar> < 2 powi (k + 1)\<close>, kept between the exponent - 1022 of the smallest
  normal float and the exponent 1023 of the largest; it is found by halving a number
  that is at least 1 (\<open>exp_up\<close>) and doubling a number below 1 (\<open>exp_down\<close>). A float of
  that binade is a multiple of \<open>2 powi (binade x - 52)\<close>. Overflow to infinity is not
  modelled: a difference of \<open>2 ^ 1024\<close> or more is rounded to a multiple of \<open>2 ^ 971\<close>,
  and clock readings are far below.
\<close>

definition round_half_even :: "real \<Rightarrow> int" where
  "round_half_even y =
     (let f = \<lfloor>y\<rfloor> in
      if y - of_int f < 1 / 2 then f
      else if 1 / 2 < y - of_int f then f + 1
      else if even f then f else f + 1)"

fun exp_up :: "nat \<Rightarrow> real \<Rightarrow> int" where
  "exp_up 0 a = 0"
| "exp_up (Suc n) a = (if a < 2 then 0 else exp_up n (a / 2) + 1)"

fun exp_down :: "nat \<Rightarrow> real \<Rightarrow> int" where
  "exp_down 0 a = 0"
| "exp_down (Suc n) a = (if 1 \<le> a then 0 else exp_down n (a * 2) - 1)"

definition binade :: "real \<Rightarrow> int" where
  "binade x = (if 1 \<le> \<bar>x\<bar> then exp_up 1023 \<bar>x\<bar> else exp_down 1022 \<bar>x\<bar>)"

definition round_float :: "real \<Rightarrow> real" where
  "round_float x =
     (if x = 0 then 0
      else of_int (round_half_even (x / power_int 2 (binade x - 52))) * power_int 2 (binade x - 52))"

text \<open>\<^verbatim>\<open>a - b\<close> on floats.\<close>

definition float_sub :: "real \<Rightarrow> real \<Rightarrow> real" where
  "float_sub a b = round_float (a - b)"

subsection \<open>The client\<close>

text \<open>
  \<^verbatim>\<open>PlexClient\<close> has four private fields; \<open>self_connection\<close> is \<^verbatim>\<open>self._connection\<close>
  (\<open>None\<close> when absent) and so on. The type \<open>'h\<close> is the type of \<^verbatim>\<open>PlexServer\<close> objects.
\<close>

record 'h PlexClient =
  self_plex_url :: string
  self_plex_token :: string
  self_connection :: "'h option"
  self_last_connection_time :: real

definition PlexClient_init :: "string \<Rightarrow> string \<Rightarrow> 'h PlexClient" where
  "PlexClient_init plex_url plex_token =
     \<lparr>self_plex_url = plex_url, self_plex_token = plex_token,
      self_connection = None, self_last_connection_time = 0\<rparr>"

text \<open>
  What lies outside the program during one call of the \<^verbatim>\<open>connection\<close> property:
  \<^item> \<open>PlexServer url token timeout\<close>: the constructor of \<^verbatim>\<open>plexapi.server.PlexServer\<close>,
    which returns an object or raises;
  \<^item> \<open>library_sections srv\<close>: the probe \<^verbatim>\<open>srv.library.sections()\<close>, whose value is thrown
    away, so only whether it raises is kept;
  \<^item> \<open>now_check\<close>: the value of \<^verbatim>\<open>datetime.now().timestamp()\<close> read by the property's
    condition; \<open>now_stamp\<close>: the value read by \<^verbatim>\<open>_connect\<close> after a successful probe.
\<close>

record 'h world =
  PlexServer :: "string \<Rightarrow> string \<Rightarrow> int \<Rightarrow> exn + 'h"
  library_sections :: "'h \<Rightarrow> exn + unit"
  now_check :: real
  now_stamp :: real

text \<open>The text \<^verbatim>\<open>f"Failed to connect to Plex server at {self._plex_url}: {e}"\<close>.\<close>

definition connect_message :: "string \<Rightarrow> exn \<Rightarrow> string" where
  "connect_message plex_url e =
     ''Failed to connect to Plex server at '' @ plex_url @ '': '' @ str_exn e"

text \<open>The \<^verbatim>\<open>except Exception as e\<close> branch of \<^verbatim>\<open>_connect\<close>.\<close>

definition connect_except :: "'h PlexClient \<Rightarrow> exn \<Rightarrow> (exn + unit) \<times> 'h PlexClient" where
  "connect_except self e =
     (Inl (ConnectionError (connect_message (self_plex_url self) e) (Some e)),
      self\<lparr>self_connection := None, self_last_connection_time := 0\<rparr>)"

text \<open>
  \<^verbatim>\<open>PlexClient._connect\<close>. The constructor's result is stored before the probe runs, so a
  failing probe finds the new object in \<open>self_connection\<close>; the handler clears it.
\<close>

definition connect :: "('h, 'z) world_scheme \<Rightarrow> 'h PlexClient \<Rightarrow> (exn + unit) \<times> 'h PlexClient" where
  "connect w self =
     (case PlexServer w (self_plex_url self) (self_plex_token self) CONNECTION_TIMEOUT of
        Inl e \<Rightarrow> connect_except self e
      | Inr srv \<Rightarrow>
          (case library_sections w srv of
             Inl e \<Rightarrow> connect_except (self\<lparr>self_connection := Some srv\<rparr>) e
           | Inr u \<Rightarrow>
               (Inr (), self\<lparr>self_connection := Some srv,
                              self_last_connection_time := now_stamp w\<rparr>)))"

text \<open>
  The \<^verbatim>\<open>connection\<close> property. The result is what the property returns or raises, the
  client afterwards, and the number of times \<^verbatim>\<open>_connect\<close> was called (0 or 1).
  \<^verbatim>\<open>or\<close> evaluates its right operand, and so reads the clock, only when a connection is
  stored. The comparison of the float difference with the integer \<^verbatim>\<open>SESSION_TIMEOUT\<close> is
  exact.
\<close>

definition connection ::
  "('h, 'z) world_scheme \<Rightarrow> 'h PlexClient \<Rightarrow> (exn + 'h) \<times> 'h PlexClient \<times> nat" where
  "connection w self =
     (if self_connection self = None
         \<or> float_sub (now_check w) (self_last_connection_time self) > of_int SESSION_TIMEOUT
      then
        (case connect w self of
           (Inl e, self') \<Rightarrow> (Inl e, self', 1)
         | (Inr u, self') \<Rightarrow>
             (case self_connection self' of
                None \<Rightarrow> (Inl (ConnectionError ''Failed to connect to Plex server.'' None), self', 1)
              | Some srv \<Rightarrow> (Inr srv, self', 1)))
      else
        (case self_connection self of
           None \<Rightarrow> (Inl (ConnectionError ''Failed to connect to Plex server.'' None), self, 0)
         | Some srv \<Rightarrow> (Inr srv, self, 0)))"

text \<open>
  A sequence of calls of the property, one world per call: the results in order, the
  client at the end and the total number of calls of \<^verbatim>\<open>_connect\<close>.
\<close>

fun acquire_seq ::
  "'h PlexClient \<Rightarrow> ('h, 'z) world_scheme list \<Rightarrow> (exn + 'h) list \<times> 'h PlexClient \<times> nat" where
  "acquire_seq self [] = ([], self, 0)"
| "acquire_seq self (w # ws) =
     (case connection w self of
        (r, self', n) \<Rightarrow>
          (case acquire_seq self' ws of
             (rs, self'', m) \<Rightarrow> (r # rs, self'', n + m)))"

text \<open>The client after a sequence of calls.\<close>

definition client_after :: "'h PlexClient \<Rightarrow> ('h, 'z) world_scheme list \<Rightarrow> 'h PlexClient" where
  "client_after self ws = fst (snd (acquire_seq self ws))"

text \<open>
  In world \<open>w\<close> the object \<open>srv\<close> is what the constructor returns for the client's endpoint
  and token, and its probe passes.
\<close>

definition probe_passes :: "('h, 'z) world_scheme \<Rightarrow> 'h PlexClient \<Rightarrow> 'h \<Rightarrow> bool" where
  "probe_passes w self srv \<longleftrightarrow>
     PlexServer w (self_plex_url self) (self_plex_token self) CONNECTION_TIMEOUT = Inr srv
     \<and> library_sections w srv = Inr ()"

text \<open>Establishment fails in world \<open>w\<close> with the exception \<open>e\<close>: the constructor or the probe raises it.\<close>

definition establish_raises :: "('h, 'z) world_scheme \<Rightarrow> 'h PlexClient \<Rightarrow> exn \<Rightarrow> bool" where
  "establish_raises w self e \<longleftrightarrow>
     (case PlexServer w (self_plex_url self) (self_plex_token self) CONNECTION_TIMEOUT of
        Inl e' \<Rightarrow> e' = e
      | Inr srv \<Rightarrow> library_sections w srv = Inl e)"




subsection \<open>Example worlds\<close>

text \<open>
  Concrete worlds and a concrete client, on which the theorems below are instantiated:
  a reachable server, an unreachable endpoint, and a server whose probe is rejected.
\<close>

definition world_up :: "real \<Rightarrow> nat world" where
  "world_up t = \<lparr>PlexServer = (\<lambda>url token timeout. Inr 1), library_sections = (\<lambda>srv. Inr ()),
                 now_check = t, now_stamp = t\<rparr>"

definition world_down :: "real \<Rightarrow> nat world" where
  "world_down t = \<lparr>PlexServer = (\<lambda>url token timeout. Inl (OtherException ''Connection refused'')),
                   library_sections = (\<lambda>srv. Inr ()), now_check = t, now_stamp = t\<rparr>"

definition world_probe_down :: "real \<Rightarrow> nat world" where
  "world_probe_down t = \<lparr>PlexServer = (\<lambda>url token timeout. Inr 2),
                   library_sections = (\<lambda>srv. Inl (OtherException ''Unauthorized'')), now_check = t, now_stamp = t\<rparr>"

definition example_client :: "nat PlexClient" where
  "example_client = PlexClient_init ''http://plex:32400'' ''token''"

text \<open>A reachable server that hands out a new object, 2, on every establishment.\<close>

definition world_new :: "real \<Rightarrow> nat world" where
  "world_new t = \<lparr>PlexServer = (\<lambda>url token timeout. Inr 2), library_sections = (\<lambda>srv. Inr ()),
                  now_check = t, now_stamp = t\<rparr>"


section \<open>The tools each module registers\<close>

text \<open>
  A tool is a bound method; it is registered under its function name, so it is modelled
  by that name. \<^verbatim>\<open>PlexMediaTools.__init__\<close> and \<^verbatim>\<open>PlexPlaylistTools.__init__\<close> build a list
  and pass it to \<^verbatim>\<open>PlexMcpTools.__init__\<close>, which calls \<^verbatim>\<open>mcp.add_tool\<close> once for each
  element, in order: the list is the sequence of registrations the module makes.
  \<^verbatim>\<open>extend\<close> and \<^verbatim>\<open>append\<close> add at the end of the list.
\<close>

definition PlexMediaTools_tools :: "PermissionsType \<Rightarrow> string list" where
  "PlexMediaTools_tools permissions =
     (let tools = [''media_search'', ''media_get_details'', ''media_get_artwork'',
                   ''media_list_available_artwork''];
          tools = (if permissions \<in> set [WRITE, DELETE]
                   then tools @ [''media_edit_metadata'', ''media_set_artwork'']
                   else tools);
          tools = (if permissions = DELETE then tools @ [''media_delete''] else tools)
      in tools)"

definition PlexPlaylistTools_tools :: "PermissionsType \<Rightarrow> string list" where
  "PlexPlaylistTools_tools permissions =
     (let tools = [''playlist_list'', ''playlist_get_contents''];
          tools = (if permissions \<in> set [WRITE, DELETE]
                   then tools @ [''playlist_create'', ''playlist_edit'', ''playlist_upload_poster'',
                                 ''playlist_copy_to_user'', ''playlist_add_to'']
                   else tools);
          tools = (if permissions = DELETE
                   then tools @ [''playlist_delete'', ''playlist_remove_from'']
                   else tools)
      in tools)"

subsection \<open>The specification's view: tagged operations and an ordered tier\<close>

text \<open>
  The specification orders the tiers \<open>read < write < delete\<close> and gives every operation
  a required tier: the base set of a module is tagged \<open>read\<close>, the operations that change
  metadata, create or edit playlists or upload artwork are tagged \<open>write\<close>, and the
  operations that delete or remove are tagged \<open>delete\<close>. The two tables below follow
  these words; \<open>spec_registered\<close> is the specification's rule "registered iff the configured
  tier is at least the required tier".
\<close>

fun tier_rank :: "PermissionsType \<Rightarrow> nat" where
  "tier_rank READ = 0"
| "tier_rank WRITE = 1"
| "tier_rank DELETE = 2"

definition tier_le :: "PermissionsType \<Rightarrow> PermissionsType \<Rightarrow> bool" where
  "tier_le a b \<longleftrightarrow> tier_rank a \<le> tier_rank b"

definition spec_media_tier :: "(string \<times> PermissionsType) list" where
  "spec_media_tier =
     [(''media_search'', READ), (''media_get_details'', READ), (''media_get_artwork'', READ),
      (''media_list_available_artwork'', READ),
      (''media_edit_metadata'', WRITE), (''media_set_artwork'', WRITE),
      (''media_delete'', DELETE)]"

definition spec_playlist_tier :: "(string \<times> PermissionsType) list" where
  "spec_playlist_tier =
     [(''playlist_list'', READ), (''playlist_get_contents'', READ),
      (''playlist_create'', WRITE), (''playlist_edit'', WRITE), (''playlist_upload_poster'', WRITE),
      (''playlist_copy_to_user'', WRITE), (''playlist_add_to'', WRITE),
      (''playlist_delete'', DELETE), (''playlist_remove_from'', DELETE)]"

text \<open>The operations of a table tagged with tier \<open>t\<close>.\<close>

definition tagged :: "(string \<times> PermissionsType) list \<Rightarrow> PermissionsType \<Rightarrow> string set" where
  "tagged table t = {name. (name, t) \<in> set table}"

definition spec_registered :: "(string \<times> PermissionsType) list \<Rightarrow> PermissionsType \<Rightarrow> string set" where
  "spec_registered table permissions = {name. \<exists>t. (name, t) \<in> set table \<and> tier_le t permissions}"


section \<open>Python values\<close>

text \<open>
  The values the tools handle: what \<^verbatim>\<open>response.json()\<close> gives, what the attributes of
  \<^verbatim>\<open>plexapi\<close> objects hold, and the dictionaries and lists handed to \<^verbatim>\<open>json.dumps\<close>.
  A dictionary is the list of its items in insertion order. Floats are modelled as real
  numbers. A tool returns the text \<^verbatim>\<open>json.dumps(v)\<close>; the model returns \<open>v\<close> itself, so
  "the tool returns a JSON object" reads "the model returns a \<open>PDict\<close>".
\<close>

datatype pyval =
    PNone
  | PBool bool
  | PInt int
  | PFloat real
  | PStr string
  | PList "pyval list"
  | PDict "(pyval \<times> pyval) list"


text \<open>
  Arguments typed \<^verbatim>\<open>Optional[int]\<close> and \<^verbatim>\<open>Optional[str]\<close>: \<open>int_arg\<close> and \<open>str_arg\<close> give the
  value when it is truthy, and \<open>None\<close> when it is \<^verbatim>\<open>None\<close>, \<^verbatim>\<open>0\<close> or the empty string.
\<close>

fun int_arg :: "int option \<Rightarrow> int option" where
  "int_arg None = None"
| "int_arg (Some i) = (if i = 0 then None else Some i)"

fun str_arg :: "string option \<Rightarrow> string option" where
  "str_arg None = None"
| "str_arg (Some s) = (if s = [] then None else Some s)"

text \<open>A dictionary display \<^verbatim>\<open>{"k1": v1, ...}\<close> with distinct string keys.\<close>

definition py_dict :: "(string \<times> pyval) list \<Rightarrow> pyval" where
  "py_dict kvs = PDict (map (\<lambda>(k, v). (PStr k, v)) kvs)"

text \<open>The value of a dictionary under a string key, if it is a dictionary and has the key.\<close>

fun py_field :: "pyval \<Rightarrow> string \<Rightarrow> pyval option" where
  "py_field (PDict kvs) k = map_of kvs (PStr k)"
| "py_field v k = None"

text \<open>\<^verbatim>\<open>d[k] = v\<close> on a dictionary with string keys: replace in place, or add at the end.\<close>

fun dict_set :: "(pyval \<times> pyval) list \<Rightarrow> string \<Rightarrow> pyval \<Rightarrow> (pyval \<times> pyval) list" where
  "dict_set [] k v = [(PStr k, v)]"
| "dict_set ((k', v') # kvs) k v =
     (if k' = PStr k then (k', v) # kvs else (k', v') # dict_set kvs k v)"

text \<open>Decimal text of an integer: \<^verbatim>\<open>str(n)\<close>, and \<^verbatim>\<open>{n}\<close> in an f-string.\<close>

definition digit_char :: "nat \<Rightarrow> char" where
  "digit_char d = char_of (48 + d)"

function str_nat :: "nat \<Rightarrow> string" where
  "str_nat n = (if n < 10 then [digit_char n] else str_nat (n div 10) @ [digit_char (n mod 10)])"
  by pat_completeness auto
termination
  by (relation "measure id") auto

definition str_int :: "int \<Rightarrow> string" where
  "str_int i = (if i < 0 then CHR ''-'' # str_nat (nat (- i)) else str_nat (nat i))"

text \<open>A text between single quotes, as in \<^verbatim>\<open>f"'{s}'"\<close>.\<close>

definition quoted :: "string \<Rightarrow> string" where
  "quoted s = CHR 0x27 # s @ [CHR 0x27]"

text \<open>An \<^verbatim>\<open>Optional[str]\<close> inside an f-string.\<close>

fun fstr_opt :: "string option \<Rightarrow> string" where
  "fstr_opt None = ''None''"
| "fstr_opt (Some s) = s"

subsection \<open>Objects of the client library\<close>

text \<open>
  A \<^verbatim>\<open>plexapi\<close> object is known by its attributes. Reading an attribute gives a value or
  raises (the library may reload an object over the network when an attribute is read);
  an attribute that is not listed raises \<^verbatim>\<open>AttributeError\<close>. The values are those
  \<^verbatim>\<open>json.dumps\<close> accepts.
\<close>

type_synonym pyobj = "(string \<times> (exn + pyval)) list"






text \<open>Every attribute of the object can be read without raising.\<close>

definition readable :: "pyobj \<Rightarrow> bool" where
  "readable obj \<longleftrightarrow> list_all (\<lambda>(name, r). case r of Inl e \<Rightarrow> False | Inr v \<Rightarrow> True) obj"



section \<open>tools.py and media\_tools.py: looking a media item up\<close>

text \<open>
  \<^verbatim>\<open>PlexMcpTools\<close>: the fields set by \<^verbatim>\<open>__init__\<close>. Every module has a client of its own.
\<close>

record 'h PlexMcpTools =
  tools_plex_url :: string
  tools_plex_token :: string
  tools_plex_client :: "'h PlexClient"
  tools_permissions :: PermissionsType

definition PlexMcpTools_init :: "string \<Rightarrow> string \<Rightarrow> PermissionsType \<Rightarrow> 'h PlexMcpTools" where
  "PlexMcpTools_init plex_url plex_token permissions =
     \<lparr>tools_plex_url = plex_url, tools_plex_token = plex_token,
      tools_plex_client = PlexClient_init plex_url plex_token,
      tools_permissions = permissions\<rparr>"

text \<open>
  The remote calls a media tool makes on the handle \<open>plex\<close>, added to the world of the
  connection manager:
  \<^item> \<open>fetchItem plex media_id\<close> is \<^verbatim>\<open>plex.fetchItem(media_id)\<close>;
  \<^item> \<open>section_search plex library_name media_title\<close> is
    \<^verbatim>\<open>plex.library.section(library_name).search(title=media_title)\<close>, the two calls that
    stand together inside one \<^verbatim>\<open>try\<close>;
  \<^item> \<open>search plex media_title\<close> is \<^verbatim>\<open>plex.search(media_title)\<close>.
  The searches return lists of objects.
\<close>

record 'h remote = "'h world" +
  fetchItem :: "'h \<Rightarrow> int \<Rightarrow> exn + pyobj"
  section_search :: "'h \<Rightarrow> string \<Rightarrow> string option \<Rightarrow> exn + pyobj list"
  search :: "'h \<Rightarrow> string option \<Rightarrow> exn + pyobj list"

text \<open>\<^verbatim>\<open>{"status": "error", "message": message}\<close>\<close>

definition error_envelope :: "string \<Rightarrow> pyval" where
  "error_envelope message = py_dict [(''status'', PStr ''error''), (''message'', PStr message)]"

text \<open>
  Inside a \<^verbatim>\<open>try\<close> block a step either raises, or returns from the function with a value,
  or goes on with a result.
\<close>

datatype 'a flow = Return pyval | Continue 'a

text \<open>\<^verbatim>\<open>try: x = ... except NotFound: return v\<close>\<close>

fun except_NotFound :: "exn + 'a \<Rightarrow> pyval \<Rightarrow> exn + 'a flow" where
  "except_NotFound (Inl (NotFound m)) v = Inr (Return v)"
| "except_NotFound (Inl e) v = Inl e"
| "except_NotFound (Inr x) v = Inr (Continue x)"

text \<open>
  The search by title, which \<^verbatim>\<open>media_get_details\<close>, \<^verbatim>\<open>media_get_artwork\<close> and
  \<^verbatim>\<open>media_list_available_artwork\<close> spell out in the same words: in the named library when
  \<^verbatim>\<open>library_name\<close> is truthy, over the whole server otherwise.
\<close>

definition search_by_title ::
  "('h, 'z) remote_scheme \<Rightarrow> 'h \<Rightarrow> string option \<Rightarrow> string option \<Rightarrow> exn + pyobj list flow" where
  "search_by_title w plex media_title library_name =
     (case str_arg library_name of
        Some name \<Rightarrow>
          except_NotFound (section_search w plex name media_title)
            (error_envelope (''Library '' @ quoted name @ '' not found''))
      | None \<Rightarrow>
          (case search w plex media_title of
             Inl e \<Rightarrow> Inl e
           | Inr results \<Rightarrow> Inr (Continue results)))"

text \<open>\<^verbatim>\<open>f"No media found matching '{media_title}'"\<close>\<close>

definition no_media_message :: "string option \<Rightarrow> string" where
  "no_media_message media_title = ''No media found matching '' @ quoted (fstr_opt media_title)"

subsection \<open>\<^verbatim>\<open>media_get_details\<close>\<close>






subsection \<open>\<^verbatim>\<open>media_get_artwork\<close> and \<^verbatim>\<open>media_list_available_artwork\<close>\<close>

text \<open>
  The two functions find the media item in the same way. What they do with the item
  found (lines 858 to 934, which download the image, and lines 1278 to 1315, which list
  the artwork) is not modelled and enters as the parameter \<open>with_media\<close>, which gives the
  value returned or raises.
\<close>

definition multiple_use_id_message :: "string option \<Rightarrow> string" where
  "multiple_use_id_message media_title =
     ''Multiple items found matching '' @ quoted (fstr_opt media_title)
       @ ''. Please use media_id for specific selection.''"

definition find_media_for_artwork ::
  "('h, 'z) remote_scheme \<Rightarrow> (pyobj \<Rightarrow> exn + pyval) \<Rightarrow> 'h
     \<Rightarrow> string option \<Rightarrow> int option \<Rightarrow> string option \<Rightarrow> string \<Rightarrow> exn + pyval" where
  "find_media_for_artwork w with_media plex media_title media_id library_name art_type =
     (if int_arg media_id = None \<and> str_arg media_title = None then
        Inr (error_envelope ''Either media_id or media_title must be provided'')
      else if art_type \<notin> set [''poster'', ''art'', ''background''] then
        Inr (error_envelope (''art_type must be 'poster', 'art', or '' @ quoted ''background''))
      else
        (case int_arg media_id of
           Some i \<Rightarrow>
             (case fetchItem w plex i of
                Inl e \<Rightarrow> Inr (error_envelope (''Media with ID '' @ quoted (str_int i) @ '' not found''))
              | Inr media \<Rightarrow> with_media media)
         | None \<Rightarrow>
             (case search_by_title w plex media_title library_name of
                Inl e \<Rightarrow> Inl e
              | Inr (Return v) \<Rightarrow> Inr v
              | Inr (Continue results) \<Rightarrow>
                  (case results of
                     [] \<Rightarrow> Inr (error_envelope (no_media_message media_title))
                   | media # rest \<Rightarrow>
                       if length results > 1 then
                         Inr (error_envelope (multiple_use_id_message media_title))
                       else with_media media))))"

definition media_get_artwork ::
  "('h, 'z) remote_scheme \<Rightarrow> (pyobj \<Rightarrow> exn + pyval) \<Rightarrow> 'h PlexMcpTools
     \<Rightarrow> string option \<Rightarrow> int option \<Rightarrow> string option \<Rightarrow> string \<Rightarrow> pyval \<times> 'h PlexMcpTools" where
  "media_get_artwork w with_media self media_title media_id library_name art_type =
     (case connection w (tools_plex_client self) of
        (r, client, n) \<Rightarrow>
          (case (case r of
                   Inl e \<Rightarrow> Inl e
                 | Inr plex \<Rightarrow>
                     find_media_for_artwork w with_media plex media_title media_id library_name
                       art_type) of
             Inl e \<Rightarrow> error_envelope (''Error getting media artwork: '' @ str_exn e)
           | Inr v \<Rightarrow> v,
           self\<lparr>tools_plex_client := client\<rparr>))"

definition media_list_available_artwork ::
  "('h, 'z) remote_scheme \<Rightarrow> (pyobj \<Rightarrow> exn + pyval) \<Rightarrow> 'h PlexMcpTools
     \<Rightarrow> string option \<Rightarrow> int option \<Rightarrow> string option \<Rightarrow> string \<Rightarrow> pyval \<times> 'h PlexMcpTools" where
  "media_list_available_artwork w with_media self media_title media_id library_name art_type =
     (case connection w (tools_plex_client self) of
        (r, client, n) \<Rightarrow>
          (case (case r of
                   Inl e \<Rightarrow> Inl e
                 | Inr plex \<Rightarrow>
                     find_media_for_artwork w with_media plex media_title media_id library_name
                       art_type) of
             Inl e \<Rightarrow> error_envelope (''Error listing available artwork: '' @ str_exn e)
           | Inr v \<Rightarrow> v,
           self\<lparr>tools_plex_client := client\<rparr>))"

text \<open>
  What the server answers to the search by title the tools make: the list of matching
  items, or an exception.
\<close>

definition title_matches ::
  "('h, 'z) remote_scheme \<Rightarrow> 'h \<Rightarrow> string option \<Rightarrow> string option \<Rightarrow> exn + pyobj list" where
  "title_matches w plex media_title library_name =
     (case str_arg library_name of
        Some name \<Rightarrow> section_search w plex name media_title
      | None \<Rightarrow> search w plex media_title)"


section \<open>media\_tools.py: \<^verbatim>\<open>media_search\<close>\<close>

subsection \<open>Operations of Python on the decoded response\<close>

text \<open>
  \<^verbatim>\<open>response.json()\<close> may give any JSON value, and the code applies \<^verbatim>\<open>in\<close>, \<^verbatim>\<open>.get\<close>,
  subscription and iteration to it without looking at its type. Each operation is
  modelled on every value, with the exception Python raises where the operation does
  not apply. The texts of these exceptions follow CPython 3.12; no theorem depends on them.
\<close>

fun type_name :: "pyval \<Rightarrow> string" where
  "type_name PNone = ''NoneType''"
| "type_name (PBool b) = ''bool''"
| "type_name (PInt i) = ''int''"
| "type_name (PFloat r) = ''float''"
| "type_name (PStr s) = ''str''"
| "type_name (PList xs) = ''list''"
| "type_name (PDict kvs) = ''dict''"

text \<open>
  \<^verbatim>\<open>"k" in x\<close>: a key of a dictionary, an element of a list, a substring of a string.
\<close>

fun py_in :: "string \<Rightarrow> pyval \<Rightarrow> exn + bool" where
  "py_in k (PDict kvs) = Inr (PStr k \<in> set (map fst kvs))"
| "py_in k (PList xs) = Inr (PStr k \<in> set xs)"
| "py_in k (PStr s) = Inr (sublist k s)"
| "py_in k v = Inl (TypeError (''argument of type '' @ quoted (type_name v) @ '' is not iterable''))"

text \<open>The receiver of \<^verbatim>\<open>x.get(...)\<close>: only a dictionary has the method.\<close>

fun get_receiver :: "pyval \<Rightarrow> exn + (pyval \<times> pyval) list" where
  "get_receiver (PDict kvs) = Inr kvs"
| "get_receiver v =
     Inl (AttributeError (quoted (type_name v) @ '' object has no attribute '' @ quoted ''get''))"

text \<open>\<^verbatim>\<open>d.get("k", default)\<close> on the items of a dictionary; \<^verbatim>\<open>d.get("k")\<close> has the default \<^verbatim>\<open>None\<close>.\<close>

definition dict_get :: "(pyval \<times> pyval) list \<Rightarrow> string \<Rightarrow> pyval \<Rightarrow> pyval" where
  "dict_get kvs k d = (case map_of kvs (PStr k) of None \<Rightarrow> d | Some v \<Rightarrow> v)"

definition py_get :: "pyval \<Rightarrow> string \<Rightarrow> pyval \<Rightarrow> exn + pyval" where
  "py_get x k d = (case get_receiver x of Inl e \<Rightarrow> Inl e | Inr kvs \<Rightarrow> Inr (dict_get kvs k d))"

text \<open>\<^verbatim>\<open>x["k"]\<close>\<close>

fun py_getitem :: "pyval \<Rightarrow> string \<Rightarrow> exn + pyval" where
  "py_getitem (PDict kvs) k =
     (case map_of kvs (PStr k) of None \<Rightarrow> Inl (KeyError k) | Some v \<Rightarrow> Inr v)"
| "py_getitem (PList xs) k = Inl (TypeError ''list indices must be integers or slices, not str'')"
| "py_getitem (PStr s) k = Inl (TypeError (''string indices must be integers, not '' @ quoted ''str''))"
| "py_getitem v k = Inl (TypeError (quoted (type_name v) @ '' object is not subscriptable''))"

text \<open>
  \<^verbatim>\<open>for y in x\<close>: the elements of a list, the keys of a dictionary, the characters of a
  string.
\<close>

fun py_iter :: "pyval \<Rightarrow> exn + pyval list" where
  "py_iter (PList xs) = Inr xs"
| "py_iter (PDict kvs) = Inr (map fst kvs)"
| "py_iter (PStr s) = Inr (map (\<lambda>c. PStr [c]) s)"
| "py_iter v = Inl (TypeError (quoted (type_name v) @ '' object is not iterable''))"

text \<open>
  Keys of a dictionary must be hashable, and two keys are the same when they are equal:
  \<^verbatim>\<open>1\<close>, \<^verbatim>\<open>1.0\<close> and \<^verbatim>\<open>True\<close> are one key.
\<close>

fun hashable :: "pyval \<Rightarrow> bool" where
  "hashable (PList xs) = False"
| "hashable (PDict kvs) = False"
| "hashable v = True"

fun key_number :: "pyval \<Rightarrow> real option" where
  "key_number (PBool b) = Some (if b then 1 else 0)"
| "key_number (PInt i) = Some (of_int i)"
| "key_number (PFloat r) = Some r"
| "key_number v = None"

definition key_eq :: "pyval \<Rightarrow> pyval \<Rightarrow> bool" where
  "key_eq a b =
     (case key_number a of
        Some x \<Rightarrow> key_number b = Some x
      | None \<Rightarrow> a = b)"

text \<open>An \<^verbatim>\<open>Optional[str]\<close> argument as a value.\<close>

fun opt_str :: "string option \<Rightarrow> pyval" where
  "opt_str None = PNone"
| "opt_str (Some s) = PStr s"

text \<open>Several assignments \<^verbatim>\<open>d[k] = v\<close> in a row.\<close>

fun dict_sets :: "(pyval \<times> pyval) list \<Rightarrow> (string \<times> pyval) list \<Rightarrow> (pyval \<times> pyval) list" where
  "dict_sets d [] = d"
| "dict_sets d ((k, v) # kvs) = dict_sets (dict_set d k v) kvs"

subsection \<open>The request\<close>

definition content_type_map :: "(string \<times> string) list" where
  "content_type_map =
     [(''movie'', ''movies''), (''show'', ''tv''), (''episode'', ''tv''),
      (''track'', ''music''), (''album'', ''music''), (''artist'', ''music'')]"

text \<open>
  The dictionary \<^verbatim>\<open>params\<close>. \<^verbatim>\<open>content_type_map\<close> is bound only inside
  \<^verbatim>\<open>if content_type:\<close>.
\<close>

definition search_params :: "string \<Rightarrow> string \<Rightarrow> string option \<Rightarrow> (string \<times> pyval) list" where
  "search_params plex_token query content_type =
     (let params = [(''query'', PStr query), (''X-Plex-Token'', PStr plex_token),
                    (''limit'', PInt 100), (''includeCollections'', PInt 1),
                    (''includeExternalMedia'', PInt 1)]
      in case str_arg content_type of
           None \<Rightarrow> params
         | Some ct \<Rightarrow>
             if CHR '','' \<in> set ct then params @ [(''searchTypes'', PStr ct)]
             else
               (case map_of content_type_map ct of
                  Some search_types \<Rightarrow>
                    params @ [(''searchTypes'', PStr search_types), (''type'', PStr ct)]
                | None \<Rightarrow> params @ [(''type'', PStr ct)]))"

subsection \<open>The two filters of the loop\<close>

text \<open>
  The condition of the first filter (lines 126 to 130):
  \<^verbatim>\<open>content_type and "," not in content_type and content_type not in content_type_map\<close>.
\<close>

definition filter_unmapped :: "string option \<Rightarrow> bool" where
  "filter_unmapped content_type =
     (case str_arg content_type of
        None \<Rightarrow> False
      | Some ct \<Rightarrow> CHR '','' \<notin> set ct \<and> ct \<notin> set (map fst content_type_map))"

text \<open>
  The condition of the second filter (lines 136 to 140):
  \<^verbatim>\<open>content_type and content_type in content_type_map and "," not in content_type\<close>.
\<close>

definition filter_mapped :: "string option \<Rightarrow> bool" where
  "filter_mapped content_type =
     (case str_arg content_type of
        None \<Rightarrow> False
      | Some ct \<Rightarrow> ct \<in> set (map fst content_type_map) \<and> CHR '','' \<notin> set ct)"

text \<open>
  Whether the loop skips an item of type \<open>item_type\<close>: the first filter with
  \<^verbatim>\<open>item_type != content_type\<close>, then the second with \<^verbatim>\<open>content_type != item_type\<close>.
\<close>

definition skipped :: "string option \<Rightarrow> pyval \<Rightarrow> bool" where
  "skipped content_type item_type =
     (if filter_unmapped content_type \<and> item_type \<noteq> opt_str content_type then True
      else if filter_mapped content_type \<and> opt_str content_type \<noteq> item_type then True
      else False)"

subsection \<open>Formatting one item\<close>

text \<open>The fields added according to the type of the item (lines 154 to 193).\<close>

definition format_by_type ::
  "(pyval \<times> pyval) list \<Rightarrow> pyval \<Rightarrow> (pyval \<times> pyval) list \<Rightarrow> (pyval \<times> pyval) list" where
  "format_by_type item item_type formatted_item =
     (if item_type = PStr ''movie'' then
        dict_sets formatted_item
          [(''year'', dict_get item ''year'' PNone), (''rating'', dict_get item ''rating'' PNone),
           (''summary'', dict_get item ''summary'' PNone)]
      else if item_type = PStr ''show'' then
        dict_sets formatted_item
          [(''year'', dict_get item ''year'' PNone), (''summary'', dict_get item ''summary'' PNone)]
      else if item_type = PStr ''season'' then
        dict_sets formatted_item
          [(''show_title'', dict_get item ''parentTitle'' (PStr ''Unknown Show'')),
           (''season_number'', dict_get item ''index'' PNone)]
      else if item_type = PStr ''episode'' then
        dict_sets formatted_item
          [(''show_title'', dict_get item ''grandparentTitle'' (PStr ''Unknown Show'')),
           (''season_number'', dict_get item ''parentIndex'' PNone),
           (''episode_number'', dict_get item ''index'' PNone)]
      else if item_type = PStr ''track'' then
        dict_sets formatted_item
          [(''artist'', dict_get item ''grandparentTitle'' (PStr ''Unknown Artist'')),
           (''album'', dict_get item ''parentTitle'' (PStr ''Unknown Album'')),
           (''track_number'', dict_get item ''index'' PNone),
           (''duration'', dict_get item ''duration'' PNone),
           (''library'', dict_get item ''librarySectionTitle'' PNone)]
      else if item_type = PStr ''album'' then
        dict_sets formatted_item
          [(''artist'', dict_get item ''parentTitle'' (PStr ''Unknown Artist'')),
           (''year'', dict_get item ''parentYear'' PNone),
           (''library'', dict_get item ''librarySectionTitle'' PNone)]
      else if item_type = PStr ''artist'' then
        dict_sets formatted_item
          [(''art'', dict_get item ''art'' PNone), (''thumb'', dict_get item ''thumb'' PNone),
           (''library'', dict_get item ''librarySectionTitle'' PNone)]
      else formatted_item)"

text \<open>
  The media information (lines 196 to 212). \<^verbatim>\<open>media_info\<close> is the first element of
  \<^verbatim>\<open>item["Media"]\<close> when that is a list with elements, and \<^verbatim>\<open>item["Media"]\<close> itself
  otherwise; it is used only when it is a dictionary.
\<close>

fun first_media :: "pyval \<Rightarrow> pyval" where
  "first_media (PList (x # xs)) = x"
| "first_media v = v"

definition format_media ::
  "(pyval \<times> pyval) list \<Rightarrow> pyval \<Rightarrow> (pyval \<times> pyval) list \<Rightarrow> (pyval \<times> pyval) list" where
  "format_media item item_type formatted_item =
     (case map_of item (PStr ''Media'') of
        None \<Rightarrow> formatted_item
      | Some media \<Rightarrow>
          (case first_media media of
             PDict media_info \<Rightarrow>
               if item_type \<in> set [PStr ''movie'', PStr ''show'', PStr ''episode''] then
                 dict_sets formatted_item
                   [(''resolution'', dict_get media_info ''videoResolution'' PNone),
                    (''container'', dict_get media_info ''container'' PNone),
                    (''codec'', dict_get media_info ''videoCodec'' PNone)]
               else if item_type \<in> set [PStr ''track''] then
                 dict_sets formatted_item
                   [(''audio_codec'', dict_get media_info ''audioCodec'' PNone),
                    (''bitrate'', dict_get media_info ''bitrate'' PNone),
                    (''container'', dict_get media_info ''container'' PNone)]
               else formatted_item
           | _ \<Rightarrow> formatted_item))"

text \<open>The artwork of a track (lines 215 to 223): each key is copied when the item has it.\<close>

definition copy_if_present ::
  "(pyval \<times> pyval) list \<Rightarrow> string \<Rightarrow> string \<Rightarrow> (pyval \<times> pyval) list \<Rightarrow> (pyval \<times> pyval) list" where
  "copy_if_present item source target formatted_item =
     (case map_of item (PStr source) of
        None \<Rightarrow> formatted_item
      | Some v \<Rightarrow> dict_set formatted_item target v)"

definition format_thumbs ::
  "(pyval \<times> pyval) list \<Rightarrow> pyval \<Rightarrow> (pyval \<times> pyval) list \<Rightarrow> (pyval \<times> pyval) list" where
  "format_thumbs item item_type formatted_item =
     (if item_type = PStr ''track'' then
        copy_if_present item ''art'' ''art''
          (copy_if_present item ''grandparentThumb'' ''artist_thumb''
             (copy_if_present item ''parentThumb'' ''album_thumb''
                (copy_if_present item ''thumb'' ''thumb'' formatted_item)))
      else formatted_item)"

definition format_item :: "(pyval \<times> pyval) list \<Rightarrow> pyval \<Rightarrow> pyval" where
  "format_item item item_type =
     PDict (format_thumbs item item_type
              (format_media item item_type
                 (format_by_type item item_type
                    [(PStr ''title'', dict_get item ''title'' (PStr ''Unknown'')),
                     (PStr ''type'', item_type),
                     (PStr ''rating_key'', dict_get item ''ratingKey'' PNone)])))"

subsection \<open>The loop over the search results\<close>

text \<open>
  \<^verbatim>\<open>results_by_type\<close> is a dictionary from item types to lists; with \<^verbatim>\<open>total_count\<close> it is
  the state of the loop. \<open>group_add\<close> is
  \<^verbatim>\<open>if item_type not in results_by_type: results_by_type[item_type] = []\<close> followed by
  \<^verbatim>\<open>results_by_type[item_type].append(formatted_item)\<close>.
\<close>

fun group_add :: "(pyval \<times> pyval list) list \<Rightarrow> pyval \<Rightarrow> pyval \<Rightarrow> (pyval \<times> pyval list) list" where
  "group_add [] k v = [(k, [v])]"
| "group_add ((k', vs) # groups) k v =
     (if key_eq k' k then (k', vs @ [v]) # groups else (k', vs) # group_add groups k v)"

definition search_step ::
  "string option \<Rightarrow> pyval \<Rightarrow> (pyval \<times> pyval list) list \<times> nat
     \<Rightarrow> exn + (pyval \<times> pyval list) list \<times> nat" where
  "search_step content_type search_result state =
     (case py_in ''Metadata'' search_result of
        Inl e \<Rightarrow> Inl e
      | Inr present \<Rightarrow>
          if \<not> present then Inr state
          else
            (case py_getitem search_result ''Metadata'' of
               Inl e \<Rightarrow> Inl e
             | Inr metadata \<Rightarrow>
                 (case get_receiver metadata of
                    Inl e \<Rightarrow> Inl e
                  | Inr item \<Rightarrow>
                      (let item_type = dict_get item ''type'' (PStr ''unknown'') in
                       if skipped content_type item_type then Inr state
                       else if \<not> hashable item_type then
                         Inl (TypeError (''unhashable type: '' @ quoted (type_name item_type)))
                       else
                         Inr (group_add (fst state) item_type (format_item item item_type),
                              Suc (snd state))))))"

fun search_loop ::
  "string option \<Rightarrow> pyval list \<Rightarrow> (pyval \<times> pyval list) list \<times> nat
     \<Rightarrow> exn + (pyval \<times> pyval list) list \<times> nat" where
  "search_loop content_type [] state = Inr state"
| "search_loop content_type (search_result # rest) state =
     (case search_step content_type search_result state of
        Inl e \<Rightarrow> Inl e
      | Inr state' \<Rightarrow> search_loop content_type rest state')"

subsection \<open>The result\<close>

definition type_order :: "string list" where
  "type_order = [''track'', ''album'', ''artist'', ''movie'', ''show'', ''season'', ''episode'']"

text \<open>
  \<^verbatim>\<open>ordered_results\<close>: the types of \<^verbatim>\<open>type_order\<close> that occur, in that order, then the
  remaining types in the order they were met.
\<close>

definition ordered_results :: "(pyval \<times> pyval list) list \<Rightarrow> (pyval \<times> pyval list) list" where
  "ordered_results results_by_type =
     (let known = concat (map (\<lambda>type_name.
                     case map_of results_by_type (PStr type_name) of
                       None \<Rightarrow> []
                     | Some items \<Rightarrow> [(PStr type_name, items)]) type_order)
      in known @ filter (\<lambda>(k, items). \<not> list_ex (\<lambda>(k', items'). key_eq k' k) known) results_by_type)"

definition no_results_envelope :: "string \<Rightarrow> pyval" where
  "no_results_envelope query =
     py_dict [(''status'', PStr ''success''),
              (''message'', PStr (''No results found for '' @ quoted query @ ''.'')),
              (''count'', PInt 0),
              (''results'', PList [])]"

definition found_envelope ::
  "string \<Rightarrow> string option \<Rightarrow> (pyval \<times> pyval list) list \<times> nat \<Rightarrow> pyval" where
  "found_envelope query content_type state =
     py_dict [(''status'', PStr ''success''),
              (''message'', PStr (''Found '' @ str_nat (snd state) @ '' results for '' @ quoted query)),
              (''query'', PStr query),
              (''content_type'', opt_str content_type),
              (''total_count'', PInt (int (snd state))),
              (''results_by_type'',
                 PDict (map (\<lambda>(k, items). (k, PList items)) (ordered_results (fst state))))]"

text \<open>
  The body of the \<^verbatim>\<open>try\<close> block. \<open>get_json url params\<close> stands for
  \<^verbatim>\<open>requests.get\<close> on \<^verbatim>\<open>f"{url}/library/search?{urlencode(params)}"\<close>, followed by
  \<^verbatim>\<open>raise_for_status()\<close> and \<^verbatim>\<open>json()\<close>: it gives the decoded body, or any of the three
  raises.
\<close>

definition media_search_try ::
  "(string \<Rightarrow> (string \<times> pyval) list \<Rightarrow> exn + pyval) \<Rightarrow> 'h PlexMcpTools
     \<Rightarrow> string \<Rightarrow> string option \<Rightarrow> exn + pyval" where
  "media_search_try get_json self query content_type =
     (case get_json (tools_plex_url self)
             (search_params (tools_plex_token self) query content_type) of
        Inl e \<Rightarrow> Inl e
      | Inr data \<Rightarrow>
          (case py_in ''MediaContainer'' data of
             Inl e \<Rightarrow> Inl e
           | Inr has_container \<Rightarrow>
               if \<not> has_container then Inr (no_results_envelope query)
               else
                 (case py_get data ''MediaContainer'' (PDict []) of
                    Inl e \<Rightarrow> Inl e
                  | Inr container \<Rightarrow>
                      (case py_in ''SearchResult'' container of
                         Inl e \<Rightarrow> Inl e
                       | Inr has_results \<Rightarrow>
                           if \<not> has_results then Inr (no_results_envelope query)
                           else
                             (case py_getitem data ''MediaContainer'' of
                                Inl e \<Rightarrow> Inl e
                              | Inr container' \<Rightarrow>
                                  (case py_getitem container' ''SearchResult'' of
                                     Inl e \<Rightarrow> Inl e
                                   | Inr search_results \<Rightarrow>
                                       (case py_iter search_results of
                                          Inl e \<Rightarrow> Inl e
                                        | Inr rows \<Rightarrow>
                                            (case search_loop content_type rows ([], 0) of
                                               Inl e \<Rightarrow> Inl e
                                             | Inr state \<Rightarrow>
                                                 Inr (found_envelope query content_type
                                                        state)))))))))"

definition media_search ::
  "(string \<Rightarrow> (string \<times> pyval) list \<Rightarrow> exn + pyval) \<Rightarrow> 'h PlexMcpTools
     \<Rightarrow> string \<Rightarrow> string option \<Rightarrow> pyval" where
  "media_search get_json self query content_type =
     (case media_search_try get_json self query content_type of
        Inl e \<Rightarrow> error_envelope (''Error searching for media: '' @ str_exn e)
      | Inr v \<Rightarrow> v)"



section \<open>playlist\_tools.py: \<^verbatim>\<open>playlist_list\<close>\<close>
















subsection \<open>Example servers with playlists\<close>





subsection \<open>An example response\<close>

text \<open>
  A server that answers the query "alien" with a film and a season, whatever the filters
  of the request, and every other query with an empty container.
\<close>

definition alien_rows :: pyval where
  "alien_rows =
     PList [py_dict [(''score'', PFloat 0.9),
                     (''Metadata'', py_dict [(''type'', PStr ''movie''), (''title'', PStr ''Alien''),
                                            (''ratingKey'', PStr ''101''), (''year'', PInt 1979)])],
            py_dict [(''score'', PFloat 0.4),
                     (''Metadata'', py_dict [(''type'', PStr ''season''), (''title'', PStr ''Season 1''),
                                            (''ratingKey'', PStr ''202''),
                                            (''parentTitle'', PStr ''Alien Nation''),
                                            (''index'', PInt 1)])]]"

definition example_get_json :: "string \<Rightarrow> (string \<times> pyval) list \<Rightarrow> exn + pyval" where
  "example_get_json url params =
     (if map_of params ''query'' = Some (PStr ''alien'')
      then Inr (py_dict [(''MediaContainer'', py_dict [(''size'', PInt 2), (''SearchResult'', alien_rows)])])
      else Inr (py_dict [(''MediaContainer'', py_dict [(''size'', PInt 0)])]))"



subsection \<open>An example server\<close>

text \<open>
  A reachable server with three items titled "Alien" (two films and an episode) in its
  whole-server search, one item in the library "Movies", and nothing under any other
  title; the library "Films" does not exist.
\<close>

definition alien_1979 :: pyobj where
  "alien_1979 = [(''title'', Inr (PStr ''Alien'')), (''type'', Inr (PStr ''movie'')),
                 (''year'', Inr (PInt 1979)), (''ratingKey'', Inr (PInt 101))]"

definition alien_2003 :: pyobj where
  "alien_2003 = [(''title'', Inr (PStr ''Alien'')), (''type'', Inr (PStr ''movie'')),
                 (''year'', Inr (PInt 2003)), (''ratingKey'', Inr (PInt 102))]"

definition alien_episode :: pyobj where
  "alien_episode = [(''title'', Inr (PStr ''Alien'')), (''type'', Inr (PStr ''episode'')),
                    (''ratingKey'', Inr (PInt 103)), (''grandparentTitle'', Inr (PStr ''Nova'')),
                    (''parentIndex'', Inr (PInt 2)), (''index'', Inr (PInt 5))]"

definition example_remote :: "nat remote" where
  "example_remote =
     \<lparr>PlexServer = (\<lambda>url token timeout. Inr 1), library_sections = (\<lambda>srv. Inr ()),
      now_check = 100, now_stamp = 100,
      fetchItem = (\<lambda>plex media_id. Inl (NotFound ''not found'')),
      section_search = (\<lambda>plex library_name media_title.
         if library_name = ''Movies''
         then Inr (if media_title = Some ''Alien'' then [alien_1979] else [])
         else Inl (NotFound ''Invalid library section'')),
      search = (\<lambda>plex media_title.
         Inr (if media_title = Some ''Alien'' then [alien_1979, alien_2003, alien_episode] else []))\<rparr>"

definition example_tools :: "nat PlexMcpTools" where
  "example_tools = PlexMcpTools_init ''http://plex:32400'' ''token'' READ"

text \<open>A stand-in for the parts of the tools that are not modelled.\<close>

definition example_tail :: "pyobj \<Rightarrow> exn + pyval" where
  "example_tail media = Inr (py_dict [(''status'', PStr ''success'')])"

section \<open>Properties of the float difference\<close>

text \<open>
  The only fact about float subtraction that the connection manager needs: the rounded
  difference exceeds 1800 exactly when the exact difference exceeds 1800 by more than
  \<open>2 powi - 43\<close>, half the distance from 1800 to the next float.
\<close>

lemma round_half_even_le: "y \<le> of_int n \<Longrightarrow> round_half_even y \<le> n"
  unfolding round_half_even_def Let_def by (auto; linarith)

lemma round_half_even_ge: "of_int n \<le> y \<Longrightarrow> n \<le> round_half_even y"
  unfolding round_half_even_def Let_def by (auto; linarith)

lemma round_half_even_of_int: "round_half_even (of_int n) = n"
  unfolding round_half_even_def Let_def by simp

lemma round_half_even_le_half:
  assumes "y \<le> of_int n + 1 / 2" and "even n"
  shows "round_half_even y \<le> n"
proof -
  have f: "\<lfloor>y\<rfloor> \<le> n" using assms(1) by linarith
  show ?thesis
  proof (cases "\<lfloor>y\<rfloor> = n")
    case True
    with assms show ?thesis unfolding round_half_even_def Let_def by auto
  next
    case False
    with f have "\<lfloor>y\<rfloor> + 1 \<le> n" by simp
    then show ?thesis unfolding round_half_even_def Let_def by auto
  qed
qed

lemma round_half_even_gt_half:
  assumes "of_int n + 1 / 2 < y"
  shows "n + 1 \<le> round_half_even y"
proof -
  have f: "n \<le> \<lfloor>y\<rfloor>" using assms by linarith
  show ?thesis
  proof (cases "\<lfloor>y\<rfloor> = n")
    case True
    with assms show ?thesis unfolding round_half_even_def Let_def by auto
  next
    case False
    with f have "n + 1 \<le> \<lfloor>y\<rfloor>" by simp
    then show ?thesis unfolding round_half_even_def Let_def by auto
  qed
qed


lemma pow2_less_imp: "power_int (2::real) m \<le> a \<Longrightarrow> a < power_int 2 n \<Longrightarrow> m < n"
proof (rule ccontr)
  assume a: "power_int (2::real) m \<le> a" "a < power_int 2 n" and "\<not> m < n"
  then have "n \<le> m" by simp
  then have "power_int (2::real) n \<le> power_int 2 m" by (rule power_int_increasing) simp
  with a show False by simp
qed

lemma pow2_succ: "power_int (2::real) (k + 1) = 2 * power_int 2 k"
proof -
  have "power_int (2::real) (1 + k) = power_int 2 1 * power_int 2 k"
    by (rule power_int_add) simp
  then show ?thesis by (simp add: add.commute)
qed

lemma pow2_pred: "power_int (2::real) (k - 1) = power_int 2 k / 2"
  using pow2_succ [of "k - 1"] by simp

lemma exp_up_range: "0 \<le> exp_up n a \<and> exp_up n a \<le> int n"
proof (induction n arbitrary: a)
  case 0
  show ?case by simp
next
  case (Suc n)
  from Suc [of "a / 2"] show ?case by auto
qed

lemma exp_up_lower: "1 \<le> a \<Longrightarrow> power_int 2 (exp_up n a) \<le> a"
proof (induction n arbitrary: a)
  case 0
  then show ?case by simp
next
  case (Suc n)
  show ?case
  proof (cases "a < 2")
    case True
    with Suc.prems show ?thesis by simp
  next
    case False
    then have "1 \<le> a / 2" by simp
    then have "power_int 2 (exp_up n (a / 2)) \<le> a / 2" by (rule Suc.IH)
    then have "2 * power_int 2 (exp_up n (a / 2)) \<le> a" by simp
    with False show ?thesis by (simp only: exp_up.simps if_False pow2_succ)
  qed
qed

lemma exp_up_upper: "a < 2 * 2 ^ n \<Longrightarrow> a < power_int 2 (exp_up n a + 1)"
proof (induction n arbitrary: a)
  case 0
  then show ?case by simp
next
  case (Suc n)
  show ?case
  proof (cases "a < 2")
    case True
    then show ?thesis by simp
  next
    case False
    from Suc.prems have "a / 2 < 2 * 2 ^ n" by simp
    then have "a / 2 < power_int 2 (exp_up n (a / 2) + 1)" by (rule Suc.IH)
    then have "a < 2 * power_int 2 (exp_up n (a / 2) + 1)" by simp
    with False show ?thesis by (simp only: exp_up.simps if_False pow2_succ)
  qed
qed

lemma exp_up_reaches: "power_int 2 k \<le> a \<Longrightarrow> k \<le> int n \<Longrightarrow> k \<le> exp_up n a"
proof (induction n arbitrary: a k)
  case 0
  then show ?case by simp
next
  case (Suc n)
  show ?case
  proof (cases "a < 2")
    case True
    then have "a < power_int 2 1" by simp
    with Suc.prems(1) have "k < 1" by (rule pow2_less_imp)
    with True show ?thesis by simp
  next
    case False
    from Suc.prems(1) have "power_int 2 (k - 1) \<le> a / 2" by (simp add: pow2_pred)
    moreover from Suc.prems(2) have "k - 1 \<le> int n" by simp
    ultimately have "k - 1 \<le> exp_up n (a / 2)" by (rule Suc.IH)
    with False show ?thesis by simp
  qed
qed

lemma exp_down_range: "- int n \<le> exp_down n a \<and> exp_down n a \<le> 0"
proof (induction n arbitrary: a)
  case 0
  show ?case by simp
next
  case (Suc n)
  from Suc [of "a * 2"] show ?case by auto
qed

lemma exp_down_ge1: "1 \<le> a \<Longrightarrow> exp_down n a = 0"
  by (cases n) simp_all

lemma exp_down_lower: "exp_down n a = - int n \<or> power_int 2 (exp_down n a) \<le> a"
proof (induction n arbitrary: a)
  case 0
  then show ?case by simp
next
  case (Suc n)
  show ?case
  proof (cases "1 \<le> a")
    case True
    then show ?thesis by simp
  next
    case False
    from Suc.IH [of "a * 2"] show ?thesis
    proof
      assume "exp_down n (a * 2) = - int n"
      with False show ?thesis by simp
    next
      assume "power_int 2 (exp_down n (a * 2)) \<le> a * 2"
      then have "power_int 2 (exp_down n (a * 2) - 1) \<le> a" by (simp add: pow2_pred)
      with False show ?thesis by simp
    qed
  qed
qed

lemma exp_down_upper: "a < 1 \<Longrightarrow> a < power_int 2 (exp_down n a + 1)"
proof (induction n arbitrary: a)
  case 0
  then show ?case by simp
next
  case (Suc n)
  from Suc.prems have n1: "\<not> 1 \<le> a" by simp
  show ?case
  proof (cases "a * 2 < 1")
    case True
    then have "a * 2 < power_int 2 (exp_down n (a * 2) + 1)" by (rule Suc.IH)
    then have "a * 2 < 2 * power_int 2 (exp_down n (a * 2))" by (simp only: pow2_succ)
    then have "a < power_int 2 (exp_down n (a * 2))" by simp
    with n1 show ?thesis by simp
  next
    case False
    then have "exp_down n (a * 2) = 0" by (intro exp_down_ge1) simp
    with n1 Suc.prems show ?thesis by simp
  qed
qed

lemma exp_down_reaches: "power_int 2 k \<le> a \<Longrightarrow> k \<le> 0 \<Longrightarrow> k \<le> exp_down n a"
proof (induction n arbitrary: a k)
  case 0
  then show ?case by simp
next
  case (Suc n)
  show ?case
  proof (cases "1 \<le> a")
    case True
    with Suc.prems show ?thesis by simp
  next
    case False
    then have "a < power_int 2 0" by simp
    with Suc.prems(1) have "k < 0" by (rule pow2_less_imp)
    then have k: "k + 1 \<le> 0" by simp
    from Suc.prems(1) have "power_int 2 (k + 1) \<le> a * 2" by (simp add: pow2_succ)
    from this k have "k + 1 \<le> exp_down n (a * 2)" by (rule Suc.IH)
    with False show ?thesis by simp
  qed
qed

lemma binade_lower: "binade x = - 1022 \<or> power_int 2 (binade x) \<le> \<bar>x\<bar>"
proof (cases "1 \<le> \<bar>x\<bar>")
  case True
  then show ?thesis using exp_up_lower [of "\<bar>x\<bar>" 1023] by (simp add: binade_def)
next
  case False
  then show ?thesis using exp_down_lower [of 1022 "\<bar>x\<bar>"] by (simp add: binade_def)
qed

lemma binade_ge: "- 1022 \<le> binade x"
  using exp_up_range [of 1023 "\<bar>x\<bar>"] exp_down_range [of 1022 "\<bar>x\<bar>"] by (simp add: binade_def)

lemma binade_upper: "\<bar>x\<bar> < 2 ^ 1024 \<Longrightarrow> \<bar>x\<bar> < power_int 2 (binade x + 1)"
proof (cases "1 \<le> \<bar>x\<bar>")
  case True
  assume "\<bar>x\<bar> < 2 ^ 1024"
  then have "\<bar>x\<bar> < 2 * 2 ^ 1023" by simp
  then have "\<bar>x\<bar> < power_int 2 (exp_up 1023 \<bar>x\<bar> + 1)" by (rule exp_up_upper)
  with True show ?thesis by (simp add: binade_def)
next
  case False
  then have "\<bar>x\<bar> < 1" by simp
  then have "\<bar>x\<bar> < power_int 2 (exp_down 1022 \<bar>x\<bar> + 1)" by (rule exp_down_upper)
  with False show ?thesis by (simp add: binade_def)
qed

lemma binade_reaches: "power_int 2 k \<le> \<bar>x\<bar> \<Longrightarrow> k \<le> 1023 \<Longrightarrow> k \<le> binade x"
proof (cases "1 \<le> \<bar>x\<bar>")
  case True
  assume "power_int 2 k \<le> \<bar>x\<bar>" and "k \<le> 1023"
  then have "k \<le> exp_up 1023 \<bar>x\<bar>" by (intro exp_up_reaches) simp_all
  with True show ?thesis by (simp add: binade_def)
next
  case False
  assume lo: "power_int 2 k \<le> \<bar>x\<bar>"
  from False have "\<bar>x\<bar> < power_int 2 0" by simp
  with lo have "k < 0" by (rule pow2_less_imp)
  then have "k \<le> 0" by simp
  with lo have "k \<le> exp_down 1022 \<bar>x\<bar>" by (rule exp_down_reaches)
  with False show ?thesis by (simp add: binade_def)
qed

lemma binade_eq:
  assumes lo: "power_int 2 k \<le> \<bar>x\<bar>" and hi: "\<bar>x\<bar> < power_int 2 (k + 1)"
    and k: "- 1022 \<le> k" "k \<le> 1023"
  shows "binade x = k"
proof -
  from lo k have ge: "k \<le> binade x" by (intro binade_reaches)
  from k have "k + 1 \<le> 1024" by simp
  then have "power_int (2::real) (k + 1) \<le> power_int 2 1024"
    by (rule power_int_increasing) simp
  with hi have "\<bar>x\<bar> < 2 ^ 1024" by simp
  then have up: "\<bar>x\<bar> < power_int 2 (binade x + 1)" by (rule binade_upper)
  from lo up have "k < binade x + 1" by (rule pow2_less_imp)
  moreover have "binade x < k + 1"
  proof (cases "binade x = - 1022")
    case True
    with k show ?thesis by simp
  next
    case False
    with binade_lower [of x] have "power_int 2 (binade x) \<le> \<bar>x\<bar>" by simp
    from this hi show ?thesis by (rule pow2_less_imp)
  qed
  ultimately show ?thesis by simp
qed

lemma pow2_add: "power_int (2::real) (m + n) = power_int 2 m * power_int 2 n"
  by (rule power_int_add) simp

lemma pow2_top: "power_int (2::real) (k + 1) = 2 ^ 53 * power_int 2 (k - 52)"
proof -
  have "k + 1 = 53 + (k - 52)" by simp
  then have "power_int (2::real) (k + 1) = power_int 2 53 * power_int 2 (k - 52)"
    by (simp only: pow2_add)
  then show ?thesis by simp
qed

lemma pow2_bottom: "power_int (2::real) k = 2 ^ 52 * power_int 2 (k - 52)"
proof -
  have "power_int (2::real) (52 + (k - 52)) = power_int 2 52 * power_int 2 (k - 52)"
    by (rule pow2_add)
  then show ?thesis by simp
qed


text \<open>The value of the rounding on a number whose binade is known.\<close>

lemma round_float_in_binade:
  assumes "power_int 2 k \<le> \<bar>x\<bar>" and "\<bar>x\<bar> < power_int 2 (k + 1)" and "- 1022 \<le> k" and "k \<le> 1023"
  shows "round_float x
         = of_int (round_half_even (x / power_int 2 (k - 52))) * power_int 2 (k - 52)"
proof -
  have "(0::real) < power_int 2 k" by simp
  with assms(1) have "0 < \<bar>x\<bar>" by linarith
  then have "x \<noteq> 0" by simp
  moreover from assms have "binade x = k" by (rule binade_eq)
  ultimately show ?thesis by (simp add: round_float_def)
qed

lemma round_float_below_binade_top:
  assumes "0 < x" and "x < 2 ^ 1024"
  shows "round_float x \<le> power_int 2 (binade x + 1)"
proof -
  let ?b = "binade x"
  let ?u = "power_int 2 (?b - 52) :: real"
  have u: "0 < ?u" by simp
  from assms have "x \<noteq> 0" by simp
  from assms have "\<bar>x\<bar> < 2 ^ 1024" by simp
  from binade_upper [OF this] assms have "x < power_int 2 (?b + 1)" by simp
  also have "power_int 2 (?b + 1) = (2::real) ^ 53 * ?u"
    by (rule pow2_top)
  finally have "x / ?u < 2 ^ 53" using u by (simp add: pos_divide_less_eq)
  then have "x / ?u \<le> of_int (2 ^ 53)" by simp
  then have "round_half_even (x / ?u) \<le> 2 ^ 53" by (rule round_half_even_le)
  then have "real_of_int (round_half_even (x / ?u)) \<le> real_of_int (2 ^ 53)"
    by (simp only: of_int_le_iff)
  then have "real_of_int (round_half_even (x / ?u)) \<le> 2 ^ 53" by simp
  then have "real_of_int (round_half_even (x / ?u)) * ?u \<le> 2 ^ 53 * ?u"
    using u by (simp add: mult_right_mono)
  moreover have "power_int 2 (?b + 1) = (2::real) ^ 53 * ?u"
    by (rule pow2_top)
  ultimately show ?thesis using \<open>x \<noteq> 0\<close> by (simp add: round_float_def)
qed

lemma round_float_above_binade_bottom:
  assumes pos: "0 < x" and lo: "power_int 2 (binade x) \<le> x"
  shows "power_int 2 (binade x) \<le> round_float x"
proof -
  let ?u = "power_int 2 (binade x - 52) :: real"
  have u: "0 < ?u" by simp
  from pos have r: "round_float x = of_int (round_half_even (x / ?u)) * ?u"
    by (simp add: round_float_def)
  from lo have "2 ^ 52 * ?u \<le> x" by (simp only: pow2_bottom [symmetric])
  then have "of_int (2 ^ 52) \<le> x / ?u" using u by (simp add: pos_le_divide_eq)
  then have "2 ^ 52 \<le> round_half_even (x / ?u)" by (rule round_half_even_ge)
  then have "real_of_int (2 ^ 52) \<le> real_of_int (round_half_even (x / ?u))"
    by (simp only: of_int_le_iff)
  then have "(2::real) ^ 52 \<le> real_of_int (round_half_even (x / ?u))" by simp
  then have "2 ^ 52 * ?u \<le> real_of_int (round_half_even (x / ?u)) * ?u"
    using u by (simp add: mult_right_mono)
  then show ?thesis by (simp only: r pow2_bottom [symmetric])
qed

lemma round_float_nonpos: "x \<le> 0 \<Longrightarrow> round_float x \<le> 0"
proof -
  assume x: "x \<le> 0"
  let ?u = "power_int 2 (binade x - 52) :: real"
  have u: "0 < ?u" by simp
  from x u have "x / ?u \<le> of_int 0" by (simp add: divide_nonpos_pos)
  then have "round_half_even (x / ?u) \<le> 0" by (rule round_half_even_le)
  then have "real_of_int (round_half_even (x / ?u)) \<le> 0" by simp
  then have "real_of_int (round_half_even (x / ?u)) * ?u \<le> 0"
    using u by (simp add: mult_nonpos_nonneg)
  then show ?thesis by (simp add: round_float_def)
qed

lemma round_float_small:
  assumes "0 < x" and "x < 1024"
  shows "round_float x \<le> 1024"
proof -
  have "binade x < 10"
  proof (cases "binade x = - 1022")
    case True
    then show ?thesis by simp
  next
    case False
    with binade_lower [of x] have "power_int 2 (binade x) \<le> \<bar>x\<bar>" by simp
    moreover from assms have "\<bar>x\<bar> < power_int 2 10" by simp
    ultimately show ?thesis by (rule pow2_less_imp)
  qed
  then have "binade x + 1 \<le> 10" by simp
  then have "power_int (2::real) (binade x + 1) \<le> power_int 2 10"
    by (rule power_int_increasing) simp
  moreover from assms have "x < 2 ^ 1024" by simp
  ultimately show ?thesis using round_float_below_binade_top [OF assms(1)] by simp
qed

lemma round_float_window:
  assumes "1024 \<le> x" and "x < 2048"
  shows "round_float x = of_int (round_half_even (x * 2 ^ 42)) / 2 ^ 42"
proof -
  have "round_float x
        = of_int (round_half_even (x / power_int 2 (10 - 52))) * power_int 2 (10 - 52)"
    using assms by (intro round_float_in_binade) simp_all
  then show ?thesis by (simp add: power_int_minus_divide)
qed

lemma round_float_large:
  assumes "2048 \<le> x"
  shows "2048 \<le> round_float x"
proof -
  from assms have pos: "0 < x" by simp
  from assms have "power_int 2 11 \<le> \<bar>x\<bar>" by simp
  then have k: "11 \<le> binade x" by (rule binade_reaches) simp
  with binade_lower [of x] pos have lo: "power_int 2 (binade x) \<le> x" by simp
  from k have "power_int (2::real) 11 \<le> power_int 2 (binade x)"
    by (rule power_int_increasing) simp
  also have "\<dots> \<le> round_float x"
    using pos lo by (rule round_float_above_binade_bottom)
  finally show ?thesis by simp
qed

text \<open>The test of the staleness window, in exact terms.\<close>

lemma round_float_gt_1800_iff:
  "1800 < round_float x \<longleftrightarrow> 1800 + 1 / 2 ^ 43 < x"
proof
  assume r: "1800 < round_float x"
  show "1800 + 1 / 2 ^ 43 < x"
  proof (rule ccontr)
    assume "\<not> 1800 + 1 / 2 ^ 43 < x"
    then have le: "x \<le> 1800 + 1 / 2 ^ 43" by simp
    consider "x \<le> 0" | "0 < x" "x < 1024" | "1024 \<le> x" by linarith
    then have "round_float x \<le> 1800"
    proof cases
      case 1
      with round_float_nonpos [of x] show ?thesis by simp
    next
      case 2
      with round_float_small [of x] show ?thesis by simp
    next
      case 3
      with le have w: "round_float x = of_int (round_half_even (x * 2 ^ 42)) / 2 ^ 42"
        by (intro round_float_window) simp_all
      from le have "x * 2 ^ 42 \<le> of_int (1800 * 2 ^ 42) + 1 / 2" by simp
      then have "round_half_even (x * 2 ^ 42) \<le> 1800 * 2 ^ 42"
        by (rule round_half_even_le_half) simp
      then have "real_of_int (round_half_even (x * 2 ^ 42)) \<le> real_of_int (1800 * 2 ^ 42)"
        by (simp only: of_int_le_iff)
      then have "real_of_int (round_half_even (x * 2 ^ 42)) \<le> 1800 * 2 ^ 42" by simp
      with w show ?thesis by (simp add: divide_le_eq)
    qed
    with r show False by simp
  qed
next
  assume gt: "1800 + 1 / 2 ^ 43 < x"
  show "1800 < round_float x"
  proof (cases "x < 2048")
    case True
    with gt have w: "round_float x = of_int (round_half_even (x * 2 ^ 42)) / 2 ^ 42"
      by (intro round_float_window) simp_all
    from gt have "of_int (1800 * 2 ^ 42) + 1 / 2 < x * 2 ^ 42" by simp
    then have "1800 * 2 ^ 42 + 1 \<le> round_half_even (x * 2 ^ 42)"
      by (rule round_half_even_gt_half)
    then have "real_of_int (1800 * 2 ^ 42 + 1) \<le> real_of_int (round_half_even (x * 2 ^ 42))"
      by (simp only: of_int_le_iff)
    then have "(1800 * 2 ^ 42 + 1 :: real) \<le> real_of_int (round_half_even (x * 2 ^ 42))" by simp
    with w show ?thesis by (simp add: less_divide_eq)
  next
    case False
    then have "2048 \<le> round_float x" by (intro round_float_large) simp
    then show ?thesis by simp
  qed
qed

lemma float_sub_gt_1800_iff: "1800 < float_sub a b \<longleftrightarrow> 1800 + 1 / 2 ^ 43 < a - b"
  by (simp only: float_sub_def round_float_gt_1800_iff)


section \<open>Properties of the connection manager\<close>

subsection \<open>What \<^verbatim>\<open>_connect\<close> and the property do\<close>

lemma connect_success_iff:
  "connect w self = (Inr u, self') \<longleftrightarrow>
     (\<exists>srv. probe_passes w self srv
        \<and> self' = self\<lparr>self_connection := Some srv, self_last_connection_time := now_stamp w\<rparr>)"
  by (auto simp: connect_def connect_except_def probe_passes_def split: sum.splits)

lemma connect_failure_iff:
  "connect w self = (Inl err, self') \<longleftrightarrow>
     (\<exists>e. establish_raises w self e
        \<and> err = ConnectionError (connect_message (self_plex_url self) e) (Some e)
        \<and> self' = self\<lparr>self_connection := None, self_last_connection_time := 0\<rparr>)"
  by (auto simp: connect_def connect_except_def establish_raises_def split: sum.splits)






lemma connection_attempts_stale:
  "self_connection self = None
     \<or> of_int SESSION_TIMEOUT < float_sub (now_check w) (self_last_connection_time self) \<Longrightarrow>
   snd (snd (connection w self)) = 1"
  by (auto simp: connection_def split: prod.splits sum.splits option.splits)


lemma connection_raises:
  assumes need: "self_connection self = None
     \<or> of_int SESSION_TIMEOUT < float_sub (now_check w) (self_last_connection_time self)"
    and fail: "establish_raises w self e"
  shows "connection w self
         = (Inl (ConnectionError (connect_message (self_plex_url self) e) (Some e)),
            self\<lparr>self_connection := None, self_last_connection_time := 0\<rparr>, 1)"
proof -
  from fail have "connect w self = (Inl (ConnectionError (connect_message (self_plex_url self) e) (Some e)),
      self\<lparr>self_connection := None, self_last_connection_time := 0\<rparr>)"
    by (simp add: connect_failure_iff)
  with need show ?thesis by (auto simp: connection_def)
qed






lemmas ex_defs = world_up_def world_down_def world_probe_down_def world_new_def example_client_def
  PlexClient_init_def connect_def connect_except_def connection_def CONNECTION_TIMEOUT_def
  probe_passes_def establish_raises_def client_after_def float_sub_gt_1800_iff SESSION_TIMEOUT_def

subsection \<open>The staleness window\<close>




subsection \<open>Failure of establishment\<close>

text \<open>
  Claim C2. When the property has to establish a connection (none is stored, or the stored
  one is stale by the property's own test) and the constructor or the probe raises \<open>e\<close>,
  the property raises a \<^verbatim>\<open>ConnectionError\<close> whose message contains the configured endpoint
  and whose cause is \<open>e\<close>; afterwards the stored handle is \<open>None\<close> and the timestamp is 0;
  the next call of the property, in any world \<open>w'\<close>, calls \<^verbatim>\<open>_connect\<close> again, and returns
  the new handle when establishment succeeds there.
\<close>

theorem connection_failure_resets:
  assumes need: "self_connection self = None
                   \<or> float_sub (now_check w) (self_last_connection_time self) > of_int SESSION_TIMEOUT"
      and fail: "establish_raises w self e"
  shows "\<exists>msg self'.
           connection w self = (Inl (ConnectionError msg (Some e)), self', 1)
           \<and> sublist (self_plex_url self) msg
           \<and> self' = self\<lparr>self_connection := None, self_last_connection_time := 0\<rparr>
           \<and> snd (snd (connection w' self')) = 1
           \<and> (probe_passes w' self srv \<longrightarrow> fst (connection w' self') = Inr srv)"
proof -
  let ?msg = "connect_message (self_plex_url self) e"
  let ?self' = "self\<lparr>self_connection := None, self_last_connection_time := 0\<rparr>"
  from need fail have r: "connection w self = (Inl (ConnectionError ?msg (Some e)), ?self', 1)"
    by (rule connection_raises)
  have m: "sublist (self_plex_url self) ?msg"
    unfolding connect_message_def by (rule sublist_appendI)
  have n: "snd (snd (connection w' ?self')) = 1"
    by (rule connection_attempts_stale) simp
  have p: "fst (connection w' ?self') = Inr srv" if "probe_passes w' self srv"
  proof -
    from that have "probe_passes w' ?self' srv" by (simp add: probe_passes_def)
    then have "connect w' ?self' = (Inr (), ?self'\<lparr>self_connection := Some srv,
        self_last_connection_time := now_stamp w'\<rparr>)"
      using connect_success_iff [of w' ?self' "()"] by blast
    then show ?thesis by (simp add: connection_def)
  qed
  from r m n p show ?thesis by blast
qed

theorem connection_failure_resets_witness:
  "establish_raises (world_probe_down 50) example_client (OtherException ''Unauthorized'')
   \<and> connection (world_probe_down 50) example_client
      = (Inl (ConnectionError ''Failed to connect to Plex server at http://plex:32400: Unauthorized''
                (Some (OtherException ''Unauthorized''))), example_client, 1)
   \<and> sublist ''http://plex:32400'' ''Failed to connect to Plex server at http://plex:32400: Unauthorized''
   \<and> snd (snd (connection (world_up 60) example_client)) = 1
   \<and> fst (connection (world_up 60) example_client) = Inr 1"
  using connection_failure_resets [of example_client "world_probe_down 50" "OtherException ''Unauthorized''"
      "world_up 60" 1]
  by (simp add: ex_defs connect_message_def)

subsection \<open>Handles handed out are probed and fresh\<close>






section \<open>Properties of registration\<close>

lemma tagged_media:
  "tagged spec_media_tier READ = {''media_search'', ''media_get_details'', ''media_get_artwork'',
                   ''media_list_available_artwork''}"
  "tagged spec_media_tier WRITE = {''media_edit_metadata'', ''media_set_artwork''}"
  "tagged spec_media_tier DELETE = {''media_delete''}"
  by (auto simp: tagged_def spec_media_tier_def)

lemma tagged_playlist:
  "tagged spec_playlist_tier READ = {''playlist_list'', ''playlist_get_contents''}"
  "tagged spec_playlist_tier WRITE = {''playlist_create'', ''playlist_edit'', ''playlist_upload_poster'',
                                 ''playlist_copy_to_user'', ''playlist_add_to''}"
  "tagged spec_playlist_tier DELETE = {''playlist_delete'', ''playlist_remove_from''}"
  by (auto simp: tagged_def spec_playlist_tier_def)

lemma spec_registered_tagged:
  "spec_registered table READ = tagged table READ"
  "spec_registered table WRITE = tagged table READ \<union> tagged table WRITE"
  "spec_registered table DELETE = tagged table READ \<union> tagged table WRITE \<union> tagged table DELETE"
  unfolding spec_registered_def tagged_def tier_le_def
  apply auto
  subgoal for x t by (cases t) auto
  subgoal for x t by (cases t) auto
  subgoal for x t by (cases t) auto
  done

lemma media_tools_sets:
  "set (PlexMediaTools_tools READ) = tagged spec_media_tier READ"
  "set (PlexMediaTools_tools WRITE) = tagged spec_media_tier READ \<union> tagged spec_media_tier WRITE"
  "set (PlexMediaTools_tools DELETE) =
     tagged spec_media_tier READ \<union> tagged spec_media_tier WRITE \<union> tagged spec_media_tier DELETE"
  by (auto simp: tagged_media PlexMediaTools_tools_def)

lemma playlist_tools_sets:
  "set (PlexPlaylistTools_tools READ) = tagged spec_playlist_tier READ"
  "set (PlexPlaylistTools_tools WRITE) = tagged spec_playlist_tier READ \<union> tagged spec_playlist_tier WRITE"
  "set (PlexPlaylistTools_tools DELETE) =
     tagged spec_playlist_tier READ \<union> tagged spec_playlist_tier WRITE \<union> tagged spec_playlist_tier DELETE"
  by (auto simp: tagged_playlist PlexPlaylistTools_tools_def)

lemma tagged_disjoint_media:
  "tagged spec_media_tier READ \<inter> tagged spec_media_tier WRITE = {}"
  "tagged spec_media_tier READ \<inter> tagged spec_media_tier DELETE = {}"
  "tagged spec_media_tier WRITE \<inter> tagged spec_media_tier DELETE = {}"
  by (auto simp: tagged_media)

lemma tagged_disjoint_playlist:
  "tagged spec_playlist_tier READ \<inter> tagged spec_playlist_tier WRITE = {}"
  "tagged spec_playlist_tier READ \<inter> tagged spec_playlist_tier DELETE = {}"
  "tagged spec_playlist_tier WRITE \<inter> tagged spec_playlist_tier DELETE = {}"
  by (auto simp: tagged_playlist)

text \<open>
  Claim C3. For every configured tier, the set of operations the media module and the
  playlist module register is exactly the set of operations whose required tier is at
  most the configured one. At \<open>READ\<close> it is the read-tagged set and holds no write- or
  delete-tagged operation; at \<open>WRITE\<close> it is the read-tagged and write-tagged sets
  together and holds no delete-tagged operation; at \<open>DELETE\<close> it is all three sets.
\<close>

theorem registered_tools_tier_cumulative:
  "set (PlexMediaTools_tools permissions) = spec_registered spec_media_tier permissions
   \<and> set (PlexPlaylistTools_tools permissions) = spec_registered spec_playlist_tier permissions
   \<and> set (PlexMediaTools_tools READ) = tagged spec_media_tier READ
   \<and> set (PlexMediaTools_tools READ)
        \<inter> (tagged spec_media_tier WRITE \<union> tagged spec_media_tier DELETE) = {}
   \<and> set (PlexMediaTools_tools WRITE) = tagged spec_media_tier READ \<union> tagged spec_media_tier WRITE
   \<and> set (PlexMediaTools_tools WRITE) \<inter> tagged spec_media_tier DELETE = {}
   \<and> set (PlexMediaTools_tools DELETE)
        = tagged spec_media_tier READ \<union> tagged spec_media_tier WRITE \<union> tagged spec_media_tier DELETE
   \<and> set (PlexPlaylistTools_tools READ) = tagged spec_playlist_tier READ
   \<and> set (PlexPlaylistTools_tools READ)
        \<inter> (tagged spec_playlist_tier WRITE \<union> tagged spec_playlist_tier DELETE) = {}
   \<and> set (PlexPlaylistTools_tools WRITE)
        = tagged spec_playlist_tier READ \<union> tagged spec_playlist_tier WRITE
   \<and> set (PlexPlaylistTools_tools WRITE) \<inter> tagged spec_playlist_tier DELETE = {}
   \<and> set (PlexPlaylistTools_tools DELETE)
        = tagged spec_playlist_tier READ \<union> tagged spec_playlist_tier WRITE
          \<union> tagged spec_playlist_tier DELETE"
proof -
  have m: "set (PlexMediaTools_tools permissions) = spec_registered spec_media_tier permissions"
    by (cases permissions) (simp_all only: media_tools_sets spec_registered_tagged)
  have p: "set (PlexPlaylistTools_tools permissions) = spec_registered spec_playlist_tier permissions"
    by (cases permissions) (simp_all only: playlist_tools_sets spec_registered_tagged)
  have dm: "set (PlexMediaTools_tools READ)
        \<inter> (tagged spec_media_tier WRITE \<union> tagged spec_media_tier DELETE) = {}"
     "set (PlexMediaTools_tools WRITE) \<inter> tagged spec_media_tier DELETE = {}"
    using tagged_disjoint_media by (auto simp only: media_tools_sets)
  have dp: "set (PlexPlaylistTools_tools READ)
        \<inter> (tagged spec_playlist_tier WRITE \<union> tagged spec_playlist_tier DELETE) = {}"
     "set (PlexPlaylistTools_tools WRITE) \<inter> tagged spec_playlist_tier DELETE = {}"
    using tagged_disjoint_playlist by (auto simp only: playlist_tools_sets)
  from m p dm dp show ?thesis
    by (simp only: media_tools_sets playlist_tools_sets simp_thms)
qed


section \<open>Properties of the lookup by title\<close>

subsection \<open>Reading attributes, and the candidate list\<close>







lemma media_get_artwork_connected:
  assumes "fst (connection w (tools_plex_client self)) = Inr plex"
  shows "fst (media_get_artwork w with_media self media_title media_id library_name art_type)
         = (case find_media_for_artwork w with_media plex media_title media_id library_name art_type of
              Inl e \<Rightarrow> error_envelope (''Error getting media artwork: '' @ str_exn e)
            | Inr v \<Rightarrow> v)"
  using assms by (cases "connection w (tools_plex_client self)") (simp add: media_get_artwork_def)

lemma media_list_available_artwork_connected:
  assumes "fst (connection w (tools_plex_client self)) = Inr plex"
  shows "fst (media_list_available_artwork w with_media self media_title media_id library_name art_type)
         = (case find_media_for_artwork w with_media plex media_title media_id library_name art_type of
              Inl e \<Rightarrow> error_envelope (''Error listing available artwork: '' @ str_exn e)
            | Inr v \<Rightarrow> v)"
  using assms
  by (cases "connection w (tools_plex_client self)") (simp add: media_list_available_artwork_def)

lemma search_by_title_matches:
  "title_matches w plex media_title library_name = Inr results \<Longrightarrow>
   search_by_title w plex media_title library_name = Inr (Continue results)"
  by (auto simp: title_matches_def search_by_title_def split: option.splits)


lemmas media_ex_defs = example_remote_def example_tools_def example_tail_def alien_1979_def
  alien_2003_def alien_episode_def PlexMcpTools_init_def PlexClient_init_def
  connection_def connect_def connect_except_def SESSION_TIMEOUT_def CONNECTION_TIMEOUT_def
  title_matches_def readable_def

subsection \<open>Several matches in \<^verbatim>\<open>media_get_details\<close>\<close>



subsection \<open>Several matches in the artwork tools\<close>

lemma find_media_for_artwork_multiple:
  assumes id: "int_arg media_id = None"
      and title: "str_arg media_title = Some t"
      and art: "art_type \<in> set [''poster'', ''art'', ''background'']"
      and found: "title_matches w plex media_title library_name = Inr results"
      and many: "length results > 1"
  shows "find_media_for_artwork w with_media plex media_title media_id library_name art_type
         = Inr (error_envelope (multiple_use_id_message media_title))"
proof -
  from many have "results \<noteq> []" by auto
  with id title art many search_by_title_matches [OF found] show ?thesis
    by (simp add: find_media_for_artwork_def list.case_eq_if)
qed

lemma multiple_use_id_message_asks:
  "sublist ''media_id'' (multiple_use_id_message media_title)"
proof -
  have "multiple_use_id_message media_title
        = (''Multiple items found matching '' @ quoted (fstr_opt media_title) @ ''. Please use '')
          @ ''media_id'' @ '' for specific selection.''"
    by (simp add: multiple_use_id_message_def)
  then show ?thesis by (simp only: sublist_appendI)
qed

text \<open>
  Claim C10. When \<^verbatim>\<open>media_get_artwork\<close> or \<^verbatim>\<open>media_list_available_artwork\<close> is called
  with a title, no identifier and a valid \<^verbatim>\<open>art_type\<close>, the handle is acquired and the
  search by title gives more than one item, the value returned is the object with
  \<open>status\<close> = \<open>error\<close> and a message that asks for \<^verbatim>\<open>media_id\<close>; it has no \<open>count\<close> and no
  \<open>results\<close> field, so it is not the \<open>multiple_results\<close> envelope.
\<close>

theorem artwork_multiple_matches_error:
  assumes conn: "fst (connection w (tools_plex_client self)) = Inr plex"
      and id: "int_arg media_id = None"
      and title: "str_arg media_title = Some t"
      and art: "art_type \<in> set [''poster'', ''art'', ''background'']"
      and found: "title_matches w plex media_title library_name = Inr results"
      and many: "length results > 1"
  shows "fst (media_get_artwork w with_media self media_title media_id library_name art_type)
           = py_dict [(''status'', PStr ''error''),
                      (''message'', PStr (multiple_use_id_message media_title))]
         \<and> fst (media_list_available_artwork w with_media' self media_title media_id library_name
                  art_type)
           = py_dict [(''status'', PStr ''error''),
                      (''message'', PStr (multiple_use_id_message media_title))]
         \<and> sublist ''media_id'' (multiple_use_id_message media_title)
         \<and> py_field (py_dict [(''status'', PStr ''error''),
                      (''message'', PStr (multiple_use_id_message media_title))]) ''count'' = None
         \<and> py_field (py_dict [(''status'', PStr ''error''),
                      (''message'', PStr (multiple_use_id_message media_title))]) ''results'' = None"
  by (simp add: media_get_artwork_connected [OF conn]
        media_list_available_artwork_connected [OF conn]
        find_media_for_artwork_multiple [OF id title art found many]
        multiple_use_id_message_asks error_envelope_def py_dict_def)

theorem artwork_multiple_matches_error_witness:
  "fst (connection example_remote (tools_plex_client example_tools)) = Inr 1
   \<and> title_matches example_remote 1 (Some ''Alien'') None
       = Inr [alien_1979, alien_2003, alien_episode]
   \<and> fst (media_get_artwork example_remote example_tail example_tools (Some ''Alien'') None None
            ''poster'')
       = py_dict [(''status'', PStr ''error''),
                  (''message'', PStr ''Multiple items found matching 'Alien'. Please use media_id for specific selection.'')]
   \<and> fst (media_list_available_artwork example_remote example_tail example_tools (Some ''Alien'')
            None None ''poster'')
       = py_dict [(''status'', PStr ''error''),
                  (''message'', PStr ''Multiple items found matching 'Alien'. Please use media_id for specific selection.'')]"
proof -
  let ?results = "[alien_1979, alien_2003, alien_episode]"
  have c: "fst (connection example_remote (tools_plex_client example_tools)) = Inr 1"
    by (simp add: media_ex_defs)
  have f: "title_matches example_remote 1 (Some ''Alien'') None = Inr ?results"
    by (simp add: example_remote_def title_matches_def)
  have m: "multiple_use_id_message (Some ''Alien'')
           = ''Multiple items found matching 'Alien'. Please use media_id for specific selection.''"
    by (simp add: multiple_use_id_message_def quoted_def)
  from artwork_multiple_matches_error [OF c _ _ _ f, of None "''Alien''" "''poster''"
      example_tail example_tail]
  show ?thesis using c f by (simp add: m)
qed


section \<open>Properties of \<^verbatim>\<open>media_search\<close>\<close>

subsection \<open>The two filters\<close>

lemma in_fst_image_iff: "k \<in> fst ` set kvs \<longleftrightarrow> map_of kvs k \<noteq> None"
  by (simp add: map_of_eq_None_iff)

lemma search_params_searchTypes:
  "map_of (search_params tok q content_type) ''searchTypes'' =
     (case str_arg content_type of
        None \<Rightarrow> None
      | Some ct \<Rightarrow>
          if CHR '','' \<in> set ct then Some (PStr ct)
          else map_option PStr (map_of content_type_map ct))"
  by (auto simp: search_params_def Let_def split: option.splits)

text \<open>
  Claim C8, as stated, fails: the condition of the first filter holds for the content
  type "season", which is not a key of \<^verbatim>\<open>content_type_map\<close>; the request then carries
  \<^verbatim>\<open>type=season\<close> alone, and the filter drops the film from the answer of the example
  server.
\<close>

theorem first_filter_live_counterexample:
  "filter_unmapped (Some ''season'')
   \<and> \<not> filter_mapped (Some ''season'')
   \<and> skipped (Some ''season'') (PStr ''movie'')
   \<and> media_search example_get_json example_tools ''alien'' (Some ''season'')
       = py_dict
           [(''status'', PStr ''success''),
            (''message'', PStr (''Found 1 results for '' @ quoted ''alien'')),
            (''query'', PStr ''alien''),
            (''content_type'', PStr ''season''),
            (''total_count'', PInt 1),
            (''results_by_type'',
               PDict [(PStr ''season'',
                       PList [py_dict [(''title'', PStr ''Season 1''), (''type'', PStr ''season''),
                                       (''rating_key'', PStr ''202''),
                                       (''show_title'', PStr ''Alien Nation''),
                                       (''season_number'', PInt 1)]])])]"
  by code_simp

text \<open>
  Claim C8, amended. The two filters are complementary, not contradictory. The condition
  of the first holds exactly when the content type is a non-empty text without a comma
  for which the request was built without \<^verbatim>\<open>searchTypes\<close> (it is no key of
  \<^verbatim>\<open>content_type_map\<close>); the condition of the second holds exactly when, for such a text,
  the request was built with \<^verbatim>\<open>searchTypes\<close> (it is a key). They never hold together, and
  an item is skipped exactly when one of them holds and the type of the item differs
  from the content type. The first filter is reachable: its condition holds for "season".
\<close>

theorem search_filters_complementary:
  "(filter_unmapped content_type \<longleftrightarrow>
      (\<exists>ct. str_arg content_type = Some ct \<and> CHR '','' \<notin> set ct
         \<and> map_of (search_params tok q content_type) ''searchTypes'' = None))
   \<and> (filter_mapped content_type \<longleftrightarrow>
      (\<exists>ct. str_arg content_type = Some ct \<and> CHR '','' \<notin> set ct
         \<and> map_of (search_params tok q content_type) ''searchTypes'' \<noteq> None))
   \<and> \<not> (filter_unmapped content_type \<and> filter_mapped content_type)
   \<and> (skipped content_type item_type \<longleftrightarrow>
        (filter_unmapped content_type \<or> filter_mapped content_type)
        \<and> item_type \<noteq> opt_str content_type)
   \<and> filter_unmapped (Some ''season'')"
proof (intro conjI)
  show "filter_unmapped content_type \<longleftrightarrow>
      (\<exists>ct. str_arg content_type = Some ct \<and> CHR '','' \<notin> set ct
         \<and> map_of (search_params tok q content_type) ''searchTypes'' = None)"
    by (auto simp: filter_unmapped_def search_params_searchTypes in_fst_image_iff
        split: option.splits)
  show "filter_mapped content_type \<longleftrightarrow>
      (\<exists>ct. str_arg content_type = Some ct \<and> CHR '','' \<notin> set ct
         \<and> map_of (search_params tok q content_type) ''searchTypes'' \<noteq> None)"
    by (auto simp: filter_mapped_def search_params_searchTypes in_fst_image_iff
        split: option.splits)
  show "\<not> (filter_unmapped content_type \<and> filter_mapped content_type)"
    by (auto simp: filter_unmapped_def filter_mapped_def split: option.splits)
  show "skipped content_type item_type \<longleftrightarrow>
        (filter_unmapped content_type \<or> filter_mapped content_type)
        \<and> item_type \<noteq> opt_str content_type"
    by (auto simp: skipped_def)
  show "filter_unmapped (Some ''season'')"
    by (simp add: filter_unmapped_def content_type_map_def)
qed


section \<open>A title that matches nothing\<close>












section \<open>What the tools return\<close>











end
